theory Spec2Isabelle
  imports Complex_Main
begin

section \<open>JavaScript values\<close>

text \<open>
  A JavaScript number is a real or NaN.  Doubles are idealised as exact reals: rounding
  error, overflow to Infinity and the sign of zero are outside the model.
\<close>

datatype jsnum = Fin real | NaN

text \<open>
  A JSON value as the handlers see it after \<open>req.json()\<close>; \<open>JUndef\<close> is a missing
  property, \<open>JObj\<close> stands for any plain object.
\<close>

datatype jsval = JUndef | JNull | JBool bool | JNum jsnum | JStr string | JObj

text \<open>
  The two conversions of the runtime that the handlers call on arbitrary input,
  \<open>Number(string)\<close> and \<open>Number.prototype.toString\<close>, are inputs of the model.
\<close>

record js_runtime =
  str_to_num :: "string \<Rightarrow> jsnum"
  num_to_str :: "jsnum \<Rightarrow> string"

definition falsy_num :: "jsnum \<Rightarrow> bool" where
  \<comment> \<open>\<open>!x\<close> on a number: zero and NaN are falsy\<close>
  "falsy_num x = (case x of NaN \<Rightarrow> True | Fin r \<Rightarrow> r = 0)"

definition is_ws :: "char \<Rightarrow> bool" where
  "is_ws c = (c \<in> set [CHR '' '', CHR 0x09, CHR 0x0A, CHR 0x0B, CHR 0x0C, CHR 0x0D])"

definition js_trim :: "string \<Rightarrow> string" where
  \<comment> \<open>\<open>String.prototype.trim\<close> on the ASCII white space\<close>
  "js_trim s = rev (dropWhile is_ws (rev (dropWhile is_ws s)))"

definition toLowerCase_char :: "char \<Rightarrow> char" where
  "toLowerCase_char ch =
     (case map_of (zip ''ABCDEFGHIJKLMNOPQRSTUVWXYZ'' ''abcdefghijklmnopqrstuvwxyz'') ch of
        None \<Rightarrow> ch
      | Some l \<Rightarrow> l)"

definition toUpperCase_char :: "char \<Rightarrow> char" where
  "toUpperCase_char ch =
     (case map_of (zip ''abcdefghijklmnopqrstuvwxyz'' ''ABCDEFGHIJKLMNOPQRSTUVWXYZ'') ch of
        None \<Rightarrow> ch
      | Some l \<Rightarrow> l)"

definition toLowerCase :: "string \<Rightarrow> string" where
  "toLowerCase s = map toLowerCase_char s"

definition toUpperCase :: "string \<Rightarrow> string" where
  "toUpperCase s = map toUpperCase_char s"

definition digit_char :: "nat \<Rightarrow> char" where
  \<comment> \<open>the decimal digit \<open>d\<close>, for \<open>d < 10\<close>\<close>
  "digit_char d = ''0123456789'' ! d"

fun nat_to_str :: "nat \<Rightarrow> string" where
  "nat_to_str n = (if n < 10 then [digit_char n] else nat_to_str (n div 10) @ [digit_char (n mod 10)])"

declare nat_to_str.simps [simp del]

definition padStart2 :: "string \<Rightarrow> string" where
  \<comment> \<open>\<open>s.padStart(2, '0')\<close>\<close>
  "padStart2 s = replicate (2 - length s) CHR ''0'' @ s"

definition maybeSingle :: "'a list \<Rightarrow> string + 'a option" where
  \<comment> \<open>the client's \<open>.maybeSingle()\<close>: no row, one row, or an error for several\<close>
  "maybeSingle rows =
     (case rows of [] \<Rightarrow> Inr None | [r] \<Rightarrow> Inr (Some r) | _ \<Rightarrow> Inl ''multiple rows returned'')"

section \<open>The store\<close>

text \<open>
  The tables as lists of rows, in the order of the table, with the columns the edge
  functions read or write.  Amounts (\<open>numeric\<close>) are reals, timestamps are milliseconds,
  \<open>None\<close> is SQL's \<open>null\<close>.  The status column is restricted by the table's check
  constraint to the five values of \<open>status\<close>.
\<close>

datatype status = Draft | Pending | Paid | Confirmed | Expired

record invoice =
  inv_id :: string
  user_id :: string
  amount :: real
  currency :: string
  to_address :: string
  reference :: "string option"
  inv_status :: status
  network :: "string option"
  confirmations_required :: "int option"
  detected_tx_hash :: "string option"
  detected_at :: "int option"
  confirmed_at :: "int option"
  created_at :: int
  expires_at :: "int option"
  public_token :: string

record payment =
  pay_invoice_id :: string
  chain :: string
  tx_hash :: string
  pay_amount :: jsnum
  confirmations :: "int option"

record merchant =
  m_id :: string
  plan_tier :: string
  trial_ends_at :: "int option"

record usage_row =
  u_merchant_id :: string
  u_month :: string
  gmv_cents :: int

record ledger_row =
  l_merchant_id :: string
  l_invoice_id :: string
  l_currency :: string
  amount_crypto :: real
  amount_usd_cents :: int

record wallet =
  w_user_id :: string
  w_currency :: string
  w_address :: string

record store =
  invoices :: "invoice list"
  payments :: "payment list"
  merchants :: "merchant list"
  merchant_usage_monthly :: "usage_row list"
  payments_ledger :: "ledger_row list"
  wallets :: "wallet list"

section \<open>The environment of one invocation\<close>

datatype db_call =
  MerchantsSelect | UsageSelect | WalletsSelect | InvoicesInsert
  | InvoicesSelect | InvoicesUpdate

datatype fetch_result = FetchThrows | FetchOk jsnum

datatype 'a rpc = RpcThrows | RpcOk 'a

record receipt =
  blockNumber :: "string option"

record clock =
  now_ms :: int
  utc_year :: nat
  utc_month :: nat

text \<open>
  What one invocation reads from outside the store: the secrets, the clock, the answers
  of the price service and of the chain nodes, the identifiers the database generates,
  and the failures of those store calls whose error the handlers test.  A store call
  whose result a handler discards is taken to succeed.
\<close>

record env =
  SUBSCRIPTIONS_ENABLED :: "string option"
  RPC_URL :: "string option"
  db_fault :: "db_call \<Rightarrow> string option"
  clk :: clock
  coingecko_usd :: "string \<Rightarrow> fetch_result"
  rpc_blockNumber :: "string option rpc"
  rpc_receipt :: "string \<Rightarrow> receipt option rpc"
  solana_status :: "string \<Rightarrow> string option rpc"
  gen_uuid :: string
  gen_token :: string

definition monthStr :: "clock \<Rightarrow> string" where
  \<comment> \<open>the first day of the current UTC month as \<open>yyyy-mm-dd\<close>\<close>
  "monthStr c =
     nat_to_str (utc_year c) @ ''-'' @ padStart2 (nat_to_str (utc_month c + 1))
       @ ''-'' @ padStart2 (nat_to_str 1)"

section \<open>Invoice creation\<close>

datatype body =
  NoBody | Text string | JsonError string "string option" | JsonToken string | Location string
  | JsonOk | JsonChecked nat | JsonInvoice invoice "(string \<times> string) list" | Uncaught

record response =
  status_code :: nat
  payload :: body







definition assertMerchantEntitled :: "env \<Rightarrow> store \<Rightarrow> string \<Rightarrow> response option" where
  "assertMerchantEntitled e s merchantId =
     (let enabled = (js_trim (case SUBSCRIPTIONS_ENABLED e of None \<Rightarrow> [] | Some v \<Rightarrow> v) = ''1'') in
      if \<not> enabled then None
      else if merchantId = [] then None
      else
        (case db_fault e MerchantsSelect of
           Some merr \<Rightarrow> Some \<lparr>status_code = 500, payload = Text merr\<rparr>
         | None \<Rightarrow>
            (case maybeSingle (filter (\<lambda>x. m_id x = merchantId) (merchants s)) of
               Inl merr \<Rightarrow> Some \<lparr>status_code = 500, payload = Text merr\<rparr>
             | Inr None \<Rightarrow> None
             | Inr (Some merchant) \<Rightarrow>
                (let now = now_ms (clk e);
                     tier = (if plan_tier merchant = [] then ''trial'' else plan_tier merchant);
                     trialEnds = trial_ends_at merchant
                 in
                 if (case trialEnds of None \<Rightarrow> False | Some t \<Rightarrow> t > now) then None
                 else if tier = ''pro_100'' then None
                 else if tier = ''canceled'' \<or> tier = ''past_due'' then
                   Some \<lparr>status_code = 402,
                         payload = JsonError
                           ''Subscription inactive. Please renew to continue creating invoices.''
                           (Some ''entitlement_blocked'')\<rparr>
                 else if tier = ''basic_50'' \<or> tier = ''trial'' then
                   (case db_fault e UsageSelect of
                      Some uerr \<Rightarrow> Some \<lparr>status_code = 500, payload = Text uerr\<rparr>
                    | None \<Rightarrow>
                       (case maybeSingle
                               (filter (\<lambda>x. u_merchant_id x = merchantId \<and> u_month x = monthStr (clk e))
                                  (merchant_usage_monthly s)) of
                          Inl uerr \<Rightarrow> Some \<lparr>status_code = 500, payload = Text uerr\<rparr>
                        | Inr usage \<Rightarrow>
                           (let gmvCents = (case usage of None \<Rightarrow> 0 | Some row \<Rightarrow> gmv_cents row) in
                            if gmvCents \<ge> 1000000 then
                              Some \<lparr>status_code = 402,
                                    payload = JsonError
                                      ''Monthly GMV reached $10,000. Upgrade to Pro to continue.''
                                      (Some ''upgrade_required'')\<rparr>
                            else None)))
                 else None))))"









section \<open>Payment ingestion: the webhook listener\<close>

type_synonym event = "string \<Rightarrow> jsval"

definition nullish :: "jsval \<Rightarrow> bool" where
  "nullish v = (v = JUndef \<or> v = JNull)"

fun coalesce :: "jsval list \<Rightarrow> jsval \<Rightarrow> jsval" where
  \<comment> \<open>\<open>v1 ?? v2 ?? ... ?? d\<close>\<close>
  "coalesce [] d = d"
| "coalesce (v # vs) d = (if nullish v then coalesce vs d else v)"

definition js_toString :: "js_runtime \<Rightarrow> jsval \<Rightarrow> string" where
  \<comment> \<open>\<open>v.toString()\<close>; the handlers call it on values that are not nullish\<close>
  "js_toString rt v =
     (case v of
        JStr t \<Rightarrow> t
      | JBool b \<Rightarrow> (if b then ''true'' else ''false'')
      | JNum n \<Rightarrow> num_to_str rt n
      | JObj \<Rightarrow> ''[object Object]''
      | JNull \<Rightarrow> ''null''
      | JUndef \<Rightarrow> ''undefined'')"

definition js_Number :: "js_runtime \<Rightarrow> jsval \<Rightarrow> jsnum" where
  "js_Number rt v =
     (case v of
        JNum n \<Rightarrow> n
      | JStr t \<Rightarrow> str_to_num rt t
      | JBool b \<Rightarrow> Fin (if b then 1 else 0)
      | JNull \<Rightarrow> Fin 0
      | JUndef \<Rightarrow> NaN
      | JObj \<Rightarrow> NaN)"

definition is_digit :: "char \<Rightarrow> bool" where
  "is_digit ch = (ch \<in> set ''0123456789'')"

definition digit_val :: "char \<Rightarrow> nat" where
  "digit_val ch = of_char ch - 48"

definition digits_to_nat :: "string \<Rightarrow> nat" where
  "digits_to_nat ds = foldl (\<lambda>acc ch. 10 * acc + digit_val ch) 0 ds"

definition integer_like :: "string \<Rightarrow> bool" where
  \<comment> \<open>\<open>/^\d+$/.test(value)\<close>\<close>
  "integer_like t = (t \<noteq> [] \<and> list_all is_digit t)"

definition normalizeAmount :: "js_runtime \<Rightarrow> jsval \<Rightarrow> jsnum option \<Rightarrow> jsnum" where
  "normalizeAmount rt v decimals =
     (case v of
        JUndef \<Rightarrow> Fin 0
      | JNull \<Rightarrow> Fin 0
      | JNum n \<Rightarrow> n
      | JStr t \<Rightarrow>
         (case (if integer_like t then decimals else None) of
            Some d \<Rightarrow>
              (case d of NaN \<Rightarrow> NaN | Fin k \<Rightarrow> Fin (real (digits_to_nat t) / 10 powr k))
          | None \<Rightarrow> (let n = str_to_num rt t in (case n of NaN \<Rightarrow> Fin 0 | Fin _ \<Rightarrow> n)))
      | JBool _ \<Rightarrow> Fin 0
      | JObj \<Rightarrow> Fin 0)"

record fields =
  f_to :: string
  f_txHash :: string
  f_amount :: jsnum
  f_currency :: string
  f_network :: string
  f_confirmations :: jsnum

definition extractFields :: "js_runtime \<Rightarrow> event \<Rightarrow> fields" where
  "extractFields rt ev =
     (let to = toLowerCase (js_toString rt
                 (coalesce [ev ''to'', ev ''toAddress'', ev ''to_address''] (JStr [])));
          txHash = js_toString rt (coalesce [ev ''hash'', ev ''txHash'', ev ''tx_hash''] (JStr []));
          decimals = js_Number rt (coalesce [ev ''decimals'', ev ''tokenDecimals''] (JNum (Fin 18)));
          amt = normalizeAmount rt (coalesce [ev ''value'', ev ''amount''] (ev ''tokenValue''))
                  (Some decimals);
          currencyRaw = js_toString rt
                 (coalesce [ev ''asset'', ev ''currency'', ev ''symbol''] (JStr []));
          contract = js_toString rt (coalesce [ev ''contractAddress'', ev ''contract''] (JStr []));
          net = toLowerCase (js_toString rt
                 (coalesce [ev ''network'', ev ''chain''] (JStr ''ethereum'')));
          cur = (if currencyRaw \<noteq> [] then toUpperCase currencyRaw
                 else (if contract \<noteq> [] then ''USDT'' else ''ETH''));
          confs = js_Number rt (coalesce [ev ''confirmations''] (JNum (Fin 0)))
      in \<lparr>f_to = to, f_txHash = txHash, f_amount = amt, f_currency = cur, f_network = net,
          f_confirmations = confs\<rparr>)"

definition order_desc :: "invoice list \<Rightarrow> invoice list" where
  \<comment> \<open>\<open>.order('created_at', { ascending: false })\<close>; rows of equal time keep the table's order\<close>
  "order_desc rows = sort_key (\<lambda>i. - created_at i) rows"

definition js_add :: "jsnum \<Rightarrow> jsnum \<Rightarrow> jsnum" where
  "js_add x y = (case (x, y) of (Fin p, Fin q) \<Rightarrow> Fin (p + q) | _ \<Rightarrow> NaN)"

definition js_lt :: "jsnum \<Rightarrow> jsnum \<Rightarrow> bool" where
  "js_lt x y = (case (x, y) of (Fin p, Fin q) \<Rightarrow> p < q | _ \<Rightarrow> False)"

definition update_invoices :: "(invoice \<Rightarrow> bool) \<Rightarrow> (invoice \<Rightarrow> invoice) \<Rightarrow> store \<Rightarrow> store" where
  \<comment> \<open>\<open>from('invoices').update(...)\<close> with its filter\<close>
  "update_invoices P f s = s\<lparr>invoices := map (\<lambda>i. if P i then f i else i) (invoices s)\<rparr>"

definition upsert_payment :: "payment \<Rightarrow> store \<Rightarrow> store" where
  \<comment> \<open>\<open>upsert(..., { onConflict: 'tx_hash' })\<close>\<close>
  "upsert_payment p s =
     (if list_ex (\<lambda>x. tx_hash x = tx_hash p) (payments s)
      then s\<lparr>payments := map (\<lambda>x. if tx_hash x = tx_hash p then p else x) (payments s)\<rparr>
      else s\<lparr>payments := payments s @ [p]\<rparr>)"

definition pending_match :: "store \<Rightarrow> fields \<Rightarrow> invoice list" where
  \<comment> \<open>the query of \<open>processEvent\<close>: the most recent pending or draft invoice for the
      address, currency and network of the event\<close>
  "pending_match s f =
     take 1 (order_desc (filter
       (\<lambda>i. to_address i = f_to f \<and> currency i = f_currency f
            \<and> network i = Some (f_network f)
            \<and> inv_status i \<in> set [Pending, Draft])
       (invoices s)))"

text \<open>
  \<open>processEvent\<close> awaits three store calls.  Each is one definition here, so that the calls
  of two deliveries can also be put in another order than one delivery after the other.
\<close>

definition pe_select :: "js_runtime \<Rightarrow> env \<Rightarrow> store \<Rightarrow> event \<Rightarrow> (fields \<times> invoice) option" where
  \<comment> \<open>the gate, the lookup of the invoice and the amount test\<close>
  "pe_select rt e s ev =
     (let f = extractFields rt ev in
      if f_to f = [] \<or> falsy_num (f_amount f) \<or> f_currency f = [] then None
      else
        (case db_fault e InvoicesSelect of
           Some _ \<Rightarrow> None
         | None \<Rightarrow>
            (case maybeSingle (pending_match s f) of
               Inl _ \<Rightarrow> None
             | Inr None \<Rightarrow> None
             | Inr (Some iv) \<Rightarrow>
                (let expected = amount iv;
                     tolerance = expected * 0.005
                 in if js_lt (js_add (f_amount f) (Fin tolerance)) (Fin expected) then None
                    else Some (f, iv)))))"

definition pe_upsert :: "env \<Rightarrow> fields \<Rightarrow> invoice \<Rightarrow> store \<Rightarrow> store" where
  "pe_upsert e f iv s =
     upsert_payment
       \<lparr>pay_invoice_id = inv_id iv, chain = f_network f,
        tx_hash = (if f_txHash f \<noteq> [] then f_txHash f else gen_uuid e),
        pay_amount = f_amount f, confirmations = Some 0\<rparr> s"

definition pe_update :: "env \<Rightarrow> fields \<Rightarrow> invoice \<Rightarrow> store \<Rightarrow> store" where
  "pe_update e f iv s =
     update_invoices (\<lambda>i. inv_id i = inv_id iv)
       (\<lambda>i. i\<lparr>inv_status := Paid,
               detected_tx_hash := (if f_txHash f \<noteq> [] then Some (f_txHash f) else None),
               detected_at := Some (now_ms (clk e))\<rparr>) s"

definition processEvent :: "js_runtime \<Rightarrow> env \<Rightarrow> store \<Rightarrow> event \<Rightarrow> store" where
  "processEvent rt e s ev =
     (case pe_select rt e s ev of
        None \<Rightarrow> s
      | Some (f, iv) \<Rightarrow> pe_update e f iv (pe_upsert e f iv s))"

section \<open>Payment ingestion: the client-submitted receipt\<close>

definition is_hex :: "char \<Rightarrow> bool" where
  "is_hex ch = (ch \<in> set ''0123456789abcdefABCDEF'')"

definition isUuid :: "string \<Rightarrow> bool" where
  \<comment> \<open>the pattern \<open>8-4-[1-5]3-[89ab]3-12\<close> of hexadecimal digits, in either case\<close>
  "isUuid v =
     (length v = 36
      \<and> list_all is_hex (take 8 v) \<and> take 1 (drop 8 v) = ''-''
      \<and> list_all is_hex (take 4 (drop 9 v)) \<and> take 1 (drop 13 v) = ''-''
      \<and> list_all (\<lambda>ch. ch \<in> set ''12345'') (take 1 (drop 14 v))
      \<and> list_all is_hex (take 3 (drop 15 v)) \<and> take 1 (drop 18 v) = ''-''
      \<and> list_all (\<lambda>ch. ch \<in> set ''89abAB'') (take 1 (drop 19 v))
      \<and> list_all is_hex (take 3 (drop 20 v)) \<and> take 1 (drop 23 v) = ''-''
      \<and> list_all is_hex (drop 24 v))"

definition isBase58 :: "string \<Rightarrow> bool" where
  "isBase58 v =
     (32 \<le> length v \<and> length v \<le> 100
      \<and> list_all (\<lambda>ch. ch \<in> set ''123456789ABCDEFGHJKLMNPQRSTUVWXYZabcdefghijkmnopqrstuvwxyz'') v)"

text \<open>
  The request: the method, and the two fields of the body as strings (\<open>None\<close> when the body
  is not JSON, which the handler's \<open>catch\<close> turns into a 500).
\<close>

record receipt_request =
  rq_method :: string
  rq_body :: "(string \<times> string) option"

definition sr_select :: "env \<Rightarrow> store \<Rightarrow> string \<Rightarrow> response + invoice" where
  \<comment> \<open>the lookup by public token and the test of the status\<close>
  "sr_select e s t =
     (case db_fault e InvoicesSelect of
        Some qerr \<Rightarrow> Inl \<lparr>status_code = 500, payload = JsonError qerr None\<rparr>
      | None \<Rightarrow>
         (case maybeSingle (filter (\<lambda>i. public_token i = t) (invoices s)) of
            Inl qerr \<Rightarrow> Inl \<lparr>status_code = 500, payload = JsonError qerr None\<rparr>
          | Inr None \<Rightarrow> Inl \<lparr>status_code = 404, payload = JsonError ''Invoice not found'' None\<rparr>
          | Inr (Some iv) \<Rightarrow>
             if inv_status iv \<noteq> Pending then Inl \<lparr>status_code = 200, payload = JsonOk\<rparr>
             else Inr iv))"

definition sr_update :: "env \<Rightarrow> string \<Rightarrow> string \<Rightarrow> store \<Rightarrow> response \<times> store" where
  "sr_update e t signature s =
     (case db_fault e InvoicesUpdate of
        Some uerr \<Rightarrow> (\<lparr>status_code = 500, payload = JsonError uerr None\<rparr>, s)
      | None \<Rightarrow>
         (\<lparr>status_code = 200, payload = JsonOk\<rparr>,
          update_invoices (\<lambda>i. public_token i = t)
            (\<lambda>i. i\<lparr>inv_status := Paid, detected_tx_hash := Some signature\<rparr>) s))"

definition solana_receipt :: "env \<Rightarrow> store \<Rightarrow> receipt_request \<Rightarrow> response \<times> store" where
  "solana_receipt e s rq =
     (if rq_method rq = ''OPTIONS'' then (\<lparr>status_code = 200, payload = NoBody\<rparr>, s)
      else if rq_method rq \<noteq> ''POST'' then
        (\<lparr>status_code = 405, payload = JsonError ''Method not allowed'' None\<rparr>, s)
      else
        (case rq_body rq of
           None \<Rightarrow> (\<lparr>status_code = 500, payload = JsonError ''Internal error'' None\<rparr>, s)
         | Some (t_raw, sig_raw) \<Rightarrow>
            (let t = js_trim t_raw; signature = js_trim sig_raw in
             if \<not> isUuid t then (\<lparr>status_code = 400, payload = JsonError ''Invalid token'' None\<rparr>, s)
             else if \<not> isBase58 signature then
               (\<lparr>status_code = 400, payload = JsonError ''Invalid signature'' None\<rparr>, s)
             else
               (case sr_select e s t of
                  Inl resp \<Rightarrow> (resp, s)
                | Inr iv \<Rightarrow> sr_update e t signature s))))"

section \<open>The confirmation reconciler\<close>

definition hex_val :: "char \<Rightarrow> nat" where
  "hex_val ch =
     (let n = (of_char ch :: nat) in
      if 48 \<le> n \<and> n \<le> 57 then n - 48
      else if 97 \<le> n \<and> n \<le> 102 then n - 87
      else n - 55)"

definition parseInt16 :: "string \<Rightarrow> int option" where
  \<comment> \<open>\<open>parseInt(t, 16)\<close>: white space, a sign and \<open>0x\<close> are skipped, then the longest run
      of hexadecimal digits is read; \<open>None\<close> is NaN\<close>
  "parseInt16 t =
     (let t1 = dropWhile is_ws t;
          neg = (take 1 t1 = ''-'');
          t2 = (if take 1 t1 = ''-'' \<or> take 1 t1 = ''+'' then drop 1 t1 else t1);
          t3 = (if take 2 t2 = ''0x'' \<or> take 2 t2 = ''0X'' then drop 2 t2 else t2);
          ds = takeWhile is_hex t3;
          n = int (foldl (\<lambda>acc ch. 16 * acc + hex_val ch) 0 ds)
      in if ds = [] then None else Some (if neg then - n else n))"

definition rpc_set :: "env \<Rightarrow> bool" where
  \<comment> \<open>\<open>RPC_URL\<close> is truthy\<close>
  "rpc_set e = (case RPC_URL e of None \<Rightarrow> False | Some url \<Rightarrow> url \<noteq> [])"

definition SYMBOL_TO_ID :: "string \<rightharpoonup> string" where
  "SYMBOL_TO_ID = [''SOL'' \<mapsto> ''solana'', ''USDC'' \<mapsto> ''usd-coin'', ''USDT'' \<mapsto> ''tether'']"

definition getUsdPrice :: "env \<Rightarrow> string \<Rightarrow> real option" where
  "getUsdPrice e symbol =
     (let sy = toUpperCase symbol in
      if sy = ''USDC'' \<or> sy = ''USDT'' then Some 1
      else
        (case SYMBOL_TO_ID sy of
           None \<Rightarrow> None
         | Some cg_id \<Rightarrow>
            (case coingecko_usd e cg_id of
               FetchThrows \<Rightarrow> None
             | FetchOk v \<Rightarrow> (case v of NaN \<Rightarrow> None | Fin p \<Rightarrow> Some p))))"

definition Math_round :: "real \<Rightarrow> int" where
  \<comment> \<open>\<open>Math.round\<close>: to the nearest integer, a half goes up\<close>
  "Math_round x = \<lfloor>x + 1 / 2\<rfloor>"

definition recordUsage :: "env \<Rightarrow> invoice \<Rightarrow> store \<Rightarrow> store" where
  "recordUsage e iv s =
     (let merchantId = user_id iv in
      if merchantId = [] then s
      else
        (let amountCrypto = amount iv;
             cur = toUpperCase (currency iv)
         in
         if amountCrypto = 0 \<or> cur = [] then s
         else
           (case getUsdPrice e cur of
              None \<Rightarrow> s
            | Some price \<Rightarrow>
               if price = 0 then s
               else
                 (let usd = amountCrypto * price;
                      usdCents = Math_round (usd * 100);
                      ms = (if list_ex (\<lambda>x. m_id x = merchantId) (merchants s) then merchants s
                            else merchants s @
                                   [\<lparr>m_id = merchantId, plan_tier = ''trial'', trial_ends_at = None\<rparr>]);
                      mon = monthStr (clk e);
                      hit = (\<lambda>x. u_merchant_id x = merchantId \<and> u_month x = mon);
                      prev = (case maybeSingle (filter hit (merchant_usage_monthly s)) of
                                Inr (Some row) \<Rightarrow> gmv_cents row
                              | _ \<Rightarrow> 0);
                      next = prev + usdCents;
                      us = (if list_ex hit (merchant_usage_monthly s)
                            then map (\<lambda>x. if hit x then x\<lparr>gmv_cents := next\<rparr> else x)
                                   (merchant_usage_monthly s)
                            else merchant_usage_monthly s @
                                   [\<lparr>u_merchant_id = merchantId, u_month = mon, gmv_cents = next\<rparr>])
                  in s\<lparr>merchants := ms, merchant_usage_monthly := us,
                        payments_ledger := payments_ledger s @
                          [\<lparr>l_merchant_id = merchantId, l_invoice_id = inv_id iv, l_currency = cur,
                            amount_crypto = amountCrypto, amount_usd_cents = usdCents\<rparr>]\<rparr>))))"

definition confirm_invoice :: "env \<Rightarrow> invoice \<Rightarrow> store \<Rightarrow> store" where
  "confirm_invoice e iv s =
     update_invoices (\<lambda>i. inv_id i = inv_id iv)
       (\<lambda>i. i\<lparr>inv_status := Confirmed, confirmed_at := Some (now_ms (clk e))\<rparr>) s"

definition set_confirmations :: "invoice \<Rightarrow> int option \<Rightarrow> store \<Rightarrow> store" where
  \<comment> \<open>\<open>from('payments').update({ confirmations }).eq('invoice_id', inv.id)\<close>; NaN is
      sent as \<open>null\<close>\<close>
  "set_confirmations iv n s =
     s\<lparr>payments := map (\<lambda>x. if pay_invoice_id x = inv_id iv then x\<lparr>confirmations := n\<rparr> else x)
                      (payments s)\<rparr>"

definition count_confirmations :: "int option \<Rightarrow> int option \<Rightarrow> int option" where
  \<comment> \<open>\<open>Math.max(0, tip - txBlock + 1)\<close>\<close>
  "count_confirmations tip txBlock =
     (case (tip, txBlock) of (Some t, Some b) \<Rightarrow> Some (max 0 (t - b + 1)) | _ \<Rightarrow> None)"

definition hash_of :: "invoice \<Rightarrow> string" where
  \<comment> \<open>the query of the sweep leaves out the rows without a hash\<close>
  "hash_of iv = (case detected_tx_hash iv of None \<Rightarrow> [] | Some h \<Rightarrow> h)"

definition sweep_step :: "env \<Rightarrow> int option \<Rightarrow> invoice \<Rightarrow> store \<Rightarrow> store option" where
  \<comment> \<open>one turn of the loop; \<open>None\<close> when the turn throws, which it does before it writes\<close>
  "sweep_step e tip iv s =
     (if network iv = Some ''solana'' then
        (case solana_status e (hash_of iv) of
           RpcThrows \<Rightarrow> Some s
         | RpcOk st \<Rightarrow>
            if st = Some ''finalized'' then Some (recordUsage e iv (confirm_invoice e iv s))
            else Some s)
      else if network iv = Some ''ethereum'' \<or> network iv = Some ''polygon''
              \<or> network iv = Some ''bsc'' then
        (if \<not> rpc_set e then Some s
         else
           (case rpc_receipt e (hash_of iv) of
              RpcThrows \<Rightarrow> None
            | RpcOk None \<Rightarrow> Some s
            | RpcOk (Some rc) \<Rightarrow>
               (case blockNumber rc of
                  None \<Rightarrow> Some s
                | Some bn \<Rightarrow>
                   if bn = [] then Some s
                   else
                     (let txBlock = parseInt16 bn;
                          confs = count_confirmations tip txBlock
                      in
                      if (case confs of
                            None \<Rightarrow> False
                          | Some n \<Rightarrow>
                             n \<ge> (case confirmations_required iv of None \<Rightarrow> 1 | Some k \<Rightarrow> k))
                      then Some (recordUsage e iv (set_confirmations iv confs (confirm_invoice e iv s)))
                      else Some (set_confirmations iv confs s)))))
      else Some s)"

fun sweep_loop :: "env \<Rightarrow> int option \<Rightarrow> invoice list \<Rightarrow> store \<Rightarrow> bool \<times> store" where
  \<comment> \<open>the loop over the rows read at the start; \<open>False\<close> when a turn threw\<close>
  "sweep_loop e tip [] s = (True, s)"
| "sweep_loop e tip (iv # rest) s =
     (case sweep_step e tip iv s of
        None \<Rightarrow> (False, s)
      | Some s' \<Rightarrow> sweep_loop e tip rest s')"

definition sweep_batch :: "store \<Rightarrow> invoice list" where
  \<comment> \<open>the query of the sweep; it states no order, the table's is taken\<close>
  "sweep_batch s =
     take 50 (filter (\<lambda>i. inv_status i = Paid \<and> detected_tx_hash i \<noteq> None) (invoices s))"

definition confirmations_sweep :: "env \<Rightarrow> store \<Rightarrow> response \<times> store" where
  "confirmations_sweep e s =
     (case db_fault e InvoicesSelect of
        Some err \<Rightarrow> (\<lparr>status_code = 500, payload = JsonError err None\<rparr>, s)
      | None \<Rightarrow>
         (let batch = sweep_batch s in
          if batch = [] then (\<lparr>status_code = 200, payload = JsonChecked 0\<rparr>, s)
          else
            (case (if rpc_set e
                   then (case rpc_blockNumber e of
                           RpcThrows \<Rightarrow> None
                         | RpcOk res \<Rightarrow> Some (case res of None \<Rightarrow> None | Some t \<Rightarrow> parseInt16 t))
                   else Some (Some 0)) of
               None \<Rightarrow> (\<lparr>status_code = 500, payload = Uncaught\<rparr>, s)
             | Some tip \<Rightarrow>
                (case sweep_loop e tip batch s of
                   (False, s') \<Rightarrow> (\<lparr>status_code = 500, payload = Uncaught\<rparr>, s')
                 | (True, s') \<Rightarrow>
                    (\<lparr>status_code = 200, payload = JsonChecked (length batch)\<rparr>, s')))))"

section \<open>The public invoice view\<close>

record public_request =
  pr_method :: string
  pr_token :: string

definition invoice_public :: "env \<Rightarrow> store \<Rightarrow> public_request \<Rightarrow> response" where
  \<comment> \<open>\<open>pr_token\<close> is the \<open>t\<close> of the query string or of the body, empty when absent\<close>
  "invoice_public e s rq =
     (if pr_method rq = ''OPTIONS'' then \<lparr>status_code = 200, payload = NoBody\<rparr>
      else if pr_method rq \<noteq> ''GET'' \<and> pr_method rq \<noteq> ''POST'' then
        \<lparr>status_code = 405, payload = JsonError ''Method not allowed'' None\<rparr>
      else if pr_token rq = [] \<or> \<not> isUuid (pr_token rq) then
        \<lparr>status_code = 400, payload = JsonError ''Invalid token'' None\<rparr>
      else
        (case db_fault e InvoicesSelect of
           Some err \<Rightarrow> \<lparr>status_code = 500, payload = JsonError err None\<rparr>
         | None \<Rightarrow>
            (case maybeSingle (filter (\<lambda>i. public_token i = pr_token rq) (invoices s)) of
               Inl err \<Rightarrow> \<lparr>status_code = 500, payload = JsonError err None\<rparr>
             | Inr None \<Rightarrow> \<lparr>status_code = 404, payload = JsonError ''Not found'' None\<rparr>
             | Inr (Some d) \<Rightarrow>
                (let sibData = order_desc (filter
                       (\<lambda>i. user_id i = user_id d \<and> amount i = amount d
                            \<and> inv_status i \<in> set [Pending, Paid, Confirmed]
                            \<and> reference i = reference d)
                       (invoices s));
                     siblings = map (\<lambda>i. (currency i, public_token i)) sibData
                 in \<lparr>status_code = 200, payload = JsonInvoice d siblings\<rparr>))))"

section \<open>The vocabulary of the specification\<close>






definition store_keys :: "store \<Rightarrow> bool" where
  \<comment> \<open>the primary keys of the tables\<close>
  "store_keys s =
     (distinct (map inv_id (invoices s)) \<and> distinct (map m_id (merchants s))
      \<and> distinct (map (\<lambda>x. (u_merchant_id x, u_month x)) (merchant_usage_monthly s)))"

definition flag_on :: "env \<Rightarrow> bool" where
  \<comment> \<open>the subscriptions feature flag\<close>
  "flag_on e = (js_trim (case SUBSCRIPTIONS_ENABLED e of None \<Rightarrow> [] | Some v \<Rightarrow> v) = ''1'')"

definition merchant_row :: "store \<Rightarrow> string \<Rightarrow> merchant option" where
  \<comment> \<open>the Merchant row of a merchant id, if there is one\<close>
  "merchant_row s mid = find (\<lambda>x. m_id x = mid) (merchants s)"

definition tier_of :: "merchant \<Rightarrow> string" where
  \<comment> \<open>the plan tier, \<open>trial\<close> when the column is empty\<close>
  "tier_of mr = (if plan_tier mr = [] then ''trial'' else plan_tier mr)"

definition trial_running :: "env \<Rightarrow> merchant \<Rightarrow> bool" where
  \<comment> \<open>the trial has an end, and the end is still ahead\<close>
  "trial_running e mr = (case trial_ends_at mr of None \<Rightarrow> False | Some t \<Rightarrow> now_ms (clk e) < t)"

definition month_gmv :: "env \<Rightarrow> store \<Rightarrow> string \<Rightarrow> int" where
  \<comment> \<open>the \<open>gmv_cents\<close> of the current calendar month, 0 without a row\<close>
  "month_gmv e s mid =
     (case find (\<lambda>x. u_merchant_id x = mid \<and> u_month x = monthStr (clk e))
             (merchant_usage_monthly s) of
        None \<Rightarrow> 0
      | Some row \<Rightarrow> gmv_cents row)"

definition blocked_with :: "response option \<Rightarrow> string \<Rightarrow> bool" where
  \<comment> \<open>a 402 that carries the machine-readable code\<close>
  "blocked_with res code =
     (case res of
        None \<Rightarrow> False
      | Some resp \<Rightarrow> status_code resp = 402 \<and> (\<exists>msg. payload resp = JsonError msg (Some code)))"









definition sibling_of :: "invoice \<Rightarrow> invoice \<Rightarrow> bool" where
  \<comment> \<open>same merchant, amount and reference as \<open>d\<close>, and a status that is shown\<close>
  "sibling_of d i =
     (user_id i = user_id d \<and> amount i = amount d \<and> reference i = reference d
      \<and> inv_status i \<in> set [Pending, Paid, Confirmed])"

definition claimed_siblings :: "store \<Rightarrow> invoice \<Rightarrow> invoice list" where
  \<comment> \<open>the siblings in the words of the specification: of another currency than \<open>d\<close>\<close>
  "claimed_siblings s d = filter (\<lambda>i. sibling_of d i \<and> currency i \<noteq> currency d) (invoices s)"

text \<open>
  Two deliveries to the webhook listener, the lookups of both running before the writes of
  either; the result is the store after the first writes, and after the second.
\<close>

definition both_read_then_write ::
  "js_runtime \<Rightarrow> env \<Rightarrow> event \<Rightarrow> env \<Rightarrow> event \<Rightarrow> store \<Rightarrow> store \<times> store" where
  "both_read_then_write rt e1 ev1 e2 ev2 s =
     (let r1 = pe_select rt e1 s ev1;
          r2 = pe_select rt e2 s ev2;
          s1 = (case r1 of None \<Rightarrow> s | Some (f, iv) \<Rightarrow> pe_update e1 f iv (pe_upsert e1 f iv s));
          s2 = (case r2 of None \<Rightarrow> s1 | Some (f, iv) \<Rightarrow> pe_update e2 f iv (pe_upsert e2 f iv s1))
      in (s1, s2))"

section \<open>Example data\<close>

definition ex_clock :: clock where
  "ex_clock = \<lparr>now_ms = 1762128000000, utc_year = 2025, utc_month = 10\<rparr>"

definition ex_env :: env where
  "ex_env =
     \<lparr>SUBSCRIPTIONS_ENABLED = Some ''1'', RPC_URL = Some ''https://rpc.example'',
      db_fault = (\<lambda>_. None), clk = ex_clock,
      coingecko_usd = (\<lambda>_. FetchOk (Fin 142.857)),
      rpc_blockNumber = RpcOk (Some ''0x64''),
      rpc_receipt = (\<lambda>_. RpcOk None),
      solana_status = (\<lambda>_. RpcOk None),
      gen_uuid = ''0f0e0d0c-0b0a-4909-8807-060504030201'',
      gen_token = ''11111111-2222-4333-8444-555555555555''\<rparr>"

definition ex_basic_store :: "int \<Rightarrow> store" where
  \<comment> \<open>one merchant on the base tier, with the given usage in November 2025\<close>
  "ex_basic_store g =
     \<lparr>invoices = [], payments = [],
      merchants = [\<lparr>m_id = ''m1'', plan_tier = ''basic_50'', trial_ends_at = None\<rparr>],
      merchant_usage_monthly = [\<lparr>u_merchant_id = ''m1'', u_month = ''2025-11-01'', gmv_cents = g\<rparr>],
      payments_ledger = [], wallets = []\<rparr>"



text \<open>A runtime for events whose strings are not numbers.\<close>

definition ex_rt :: js_runtime where
  "ex_rt = \<lparr>str_to_num = (\<lambda>_. NaN), num_to_str = (\<lambda>_. ''NaN'')\<rparr>"

text \<open>An event given by its properties; every other property is missing.\<close>

definition mk_event :: "(string \<times> jsval) list \<Rightarrow> event" where
  "mk_event kvs k = (case map_of kvs k of None \<Rightarrow> JUndef | Some v \<Rightarrow> v)"

definition ex_eth_invoice :: "status \<Rightarrow> invoice" where
  "ex_eth_invoice st =
     \<lparr>inv_id = ''inv-1'', user_id = ''m1'', amount = 1, currency = ''ETH'',
      to_address = ''0xabc1'', reference = None, inv_status = st, network = Some ''ethereum'',
      confirmations_required = Some 3, detected_tx_hash = None, detected_at = None,
      confirmed_at = None, created_at = 1762000000000, expires_at = None,
      public_token = ''aaaaaaaa-bbbb-4ccc-8ddd-eeeeeeeeeeee''\<rparr>"

definition ex_eth_store :: "status \<Rightarrow> store" where
  "ex_eth_store st =
     \<lparr>invoices = [ex_eth_invoice st], payments = [], merchants = [],
      merchant_usage_monthly = [], payments_ledger = [], wallets = []\<rparr>"

definition ex_transfer :: "jsval \<Rightarrow> event" where
  "ex_transfer v = mk_event [(''to'', JStr ''0xABC1''), (''hash'', JStr ''0xh1''),
      (''value'', v), (''asset'', JStr ''eth'')]"

definition ex_signature :: string where
  "ex_signature = ''5VERv8NMvzbJMEkV8xnrLkEaWRtSz9CosKDYjCJjBRnb''"

definition ex_receipt_request :: receipt_request where
  "ex_receipt_request =
     \<lparr>rq_method = ''POST'', rq_body = Some (''aaaaaaaa-bbbb-4ccc-8ddd-eeeeeeeeeeee'', ex_signature)\<rparr>"

definition ex_paid_invoice :: "string \<Rightarrow> string \<Rightarrow> string \<Rightarrow> invoice" where
  "ex_paid_invoice k cur h =
     \<lparr>inv_id = k, user_id = ''m1'', amount = 25, currency = cur,
      to_address = ''0xabc1'', reference = None, inv_status = Paid, network = Some ''ethereum'',
      confirmations_required = Some 3, detected_tx_hash = Some h, detected_at = Some 1762000000500,
      confirmed_at = None, created_at = 1762000000000, expires_at = None,
      public_token = ''aaaaaaaa-bbbb-4ccc-8ddd-eeeeeeeeeeee''\<rparr>"



definition ex_two_paid :: store where
  "ex_two_paid =
     \<lparr>invoices = [ex_paid_invoice ''inv-1'' ''USDT'' ''0xh1'', ex_paid_invoice ''inv-2'' ''USDT'' ''0xh2''],
      payments = [], merchants = [], merchant_usage_monthly = [], payments_ledger = [],
      wallets = []\<rparr>"

text \<open>Two nodes: one fails on the receipt of \<open>0xh1\<close>, the other has no receipt for it.\<close>

definition ex_throwing_env :: env where
  "ex_throwing_env =
     ex_env\<lparr>rpc_receipt := (\<lambda>h. if h = ''0xh1'' then RpcThrows
                                else RpcOk (Some \<lparr>blockNumber = Some ''0x62''\<rparr>))\<rparr>"

definition ex_missing_env :: env where
  "ex_missing_env =
     ex_env\<lparr>rpc_receipt := (\<lambda>h. if h = ''0xh1'' then RpcOk None
                                else RpcOk (Some \<lparr>blockNumber = Some ''0x62''\<rparr>))\<rparr>"


definition ex_offer :: "string \<Rightarrow> string \<Rightarrow> string \<Rightarrow> status \<Rightarrow> int \<Rightarrow> invoice" where
  "ex_offer k cur tok st ts =
     \<lparr>inv_id = k, user_id = ''m1'', amount = 10, currency = cur,
      to_address = ''7xKXtg2CW87d97TXJSDpbD5jBkheTqA83TZRuJosgAsU'',
      reference = Some ''order-7'', inv_status = st, network = Some ''solana'',
      confirmations_required = Some 1, detected_tx_hash = None, detected_at = None,
      confirmed_at = None, created_at = ts, expires_at = None, public_token = tok\<rparr>"

definition ex_sibling_store :: store where
  "ex_sibling_store =
     \<lparr>invoices =
        [ex_offer ''inv-1'' ''SOL'' ''aaaaaaaa-0000-4000-8000-000000000001'' Pending 1762000000001,
         ex_offer ''inv-2'' ''USDC'' ''aaaaaaaa-0000-4000-8000-000000000002'' Paid 1762000000002,
         ex_offer ''inv-3'' ''USDT'' ''aaaaaaaa-0000-4000-8000-000000000003'' Confirmed 1762000000003,
         ex_offer ''inv-4'' ''USDT'' ''aaaaaaaa-0000-4000-8000-000000000004'' Expired 1762000000004],
      payments = [], merchants = [], merchant_usage_monthly = [], payments_ledger = [],
      wallets = []\<rparr>"

definition ex_same_currency_store :: store where
  "ex_same_currency_store =
     \<lparr>invoices =
        [ex_offer ''inv-1'' ''USDC'' ''aaaaaaaa-0000-4000-8000-000000000001'' Pending 1762000000001,
         ex_offer ''inv-2'' ''USDC'' ''aaaaaaaa-0000-4000-8000-000000000002'' Pending 1762000000002],
      payments = [], merchants = [], merchant_usage_monthly = [], payments_ledger = [],
      wallets = []\<rparr>"

definition ex_transfer2 :: event where
  "ex_transfer2 = mk_event [(''to'', JStr ''0xABC1''), (''hash'', JStr ''0xh2''),
      (''value'', JNum (Fin 1)), (''asset'', JStr ''eth'')]"

definition ex_later_env :: env where
  "ex_later_env = ex_env\<lparr>clk := ex_clock\<lparr>now_ms := 1762128000040\<rparr>\<rparr>"

section \<open>Properties\<close>

subsection \<open>Lookups by key\<close>

lemma maybeSingle_key:
  assumes "distinct (map f xs)" and "\<And>x. P x \<longleftrightarrow> f x = k"
  shows "maybeSingle (filter P xs) = Inr (find P xs)"
  using assms(1)
proof (induction xs)
  case Nil
  then show ?case by (simp add: maybeSingle_def)
next
  case (Cons x xs)
  show ?case
  proof (cases "P x")
    case True
    then have "f x = k" using assms(2) by simp
    have "\<forall>y\<in>set xs. \<not> P y"
    proof
      fix y assume "y \<in> set xs"
      then have "f y \<in> f ` set xs" by simp
      moreover have "f x \<notin> f ` set xs" using Cons.prems by simp
      ultimately have "f y \<noteq> k" using \<open>f x = k\<close> by metis
      then show "\<not> P y" by (simp add: assms(2))
    qed
    then have "filter P xs = []" by (simp add: filter_empty_conv)
    with True show ?thesis by (simp add: maybeSingle_def)
  next
    case False
    with Cons show ?thesis by simp
  qed
qed

lemma monthStr_ex_clock: "monthStr ex_clock = ''2025-11-01''"
  by (simp add: monthStr_def ex_clock_def padStart2_def nat_to_str.simps digit_char_def)

subsection \<open>The entitlement check\<close>

lemma assertMerchantEntitled_cases:
  assumes "store_keys s" "db_fault e MerchantsSelect = None" "db_fault e UsageSelect = None"
    "mid \<noteq> []"
  shows "assertMerchantEntitled e s mid =
    (if \<not> flag_on e then None
     else
       (case merchant_row s mid of
          None \<Rightarrow> None
        | Some mr \<Rightarrow>
           if trial_running e mr \<or> tier_of mr = ''pro_100'' then None
           else if tier_of mr = ''canceled'' \<or> tier_of mr = ''past_due'' then
             Some \<lparr>status_code = 402,
                   payload = JsonError
                     ''Subscription inactive. Please renew to continue creating invoices.''
                     (Some ''entitlement_blocked'')\<rparr>
           else if tier_of mr = ''basic_50'' \<or> tier_of mr = ''trial'' then
             (if month_gmv e s mid \<ge> 1000000 then
                Some \<lparr>status_code = 402,
                      payload = JsonError
                        ''Monthly GMV reached $10,000. Upgrade to Pro to continue.''
                        (Some ''upgrade_required'')\<rparr>
              else None)
           else None))"
proof -
  have mq: "maybeSingle (filter (\<lambda>x. m_id x = mid) (merchants s))
      = Inr (find (\<lambda>x. m_id x = mid) (merchants s))"
    using assms(1)
    by (intro maybeSingle_key[where f = m_id and k = mid]) (auto simp: store_keys_def)
  have uq: "maybeSingle (filter (\<lambda>x. u_merchant_id x = mid \<and> u_month x = monthStr (clk e))
                (merchant_usage_monthly s))
      = Inr (find (\<lambda>x. u_merchant_id x = mid \<and> u_month x = monthStr (clk e))
                (merchant_usage_monthly s))"
    using assms(1)
    by (intro maybeSingle_key[where f = "\<lambda>x. (u_merchant_id x, u_month x)"
          and k = "(mid, monthStr (clk e))"]) (auto simp: store_keys_def)
  show ?thesis
    unfolding assertMerchantEntitled_def
    by (simp add: mq uq assms flag_on_def tier_of_def trial_running_def month_gmv_def
        merchant_row_def Let_def split: option.splits)
qed

text \<open>
  C1.  With the primary keys in place, the two lookups answering, and a merchant id given,
  the entitlement check decides in this order.  It allows the request when the
  subscriptions flag is off, when the merchant has no row, when the trial is still running,
  or when the tier is \<open>pro_100\<close>.  Otherwise a tier \<open>canceled\<close> or \<open>past_due\<close> is blocked with
  402 and the code \<open>entitlement_blocked\<close>.  Otherwise, on the tier \<open>basic_50\<close>, or on the
  tier \<open>trial\<close> (whose trial is then over), the request is blocked with 402 and the code
  \<open>upgrade_required\<close> exactly when the \<open>gmv_cents\<close> of the current month is at least
  1,000,000, and allowed below that.
\<close>

theorem entitlement_check_decides:
  assumes "store_keys s" "db_fault e MerchantsSelect = None" "db_fault e UsageSelect = None"
    "mid \<noteq> []"
  shows
    "((\<not> flag_on e \<or> merchant_row s mid = None
        \<or> (\<exists>mr. merchant_row s mid = Some mr \<and> (trial_running e mr \<or> tier_of mr = ''pro_100'')))
       \<longrightarrow> assertMerchantEntitled e s mid = None)
     \<and> (\<forall>mr. flag_on e \<and> merchant_row s mid = Some mr \<and> \<not> trial_running e mr
            \<and> (tier_of mr = ''canceled'' \<or> tier_of mr = ''past_due'')
          \<longrightarrow> blocked_with (assertMerchantEntitled e s mid) ''entitlement_blocked'')
     \<and> (\<forall>mr. flag_on e \<and> merchant_row s mid = Some mr \<and> \<not> trial_running e mr
            \<and> (tier_of mr = ''basic_50'' \<or> tier_of mr = ''trial'')
          \<longrightarrow> (if month_gmv e s mid \<ge> 1000000
               then blocked_with (assertMerchantEntitled e s mid) ''upgrade_required''
               else assertMerchantEntitled e s mid = None))"
  unfolding assertMerchantEntitled_cases[OF assms]
  by (auto simp: blocked_with_def)

theorem entitlement_check_decides_witness:
  "assertMerchantEntitled ex_env (ex_basic_store 999999) ''m1'' = None
   \<and> blocked_with (assertMerchantEntitled ex_env (ex_basic_store 1000000) ''m1'') ''upgrade_required''"
proof -
  have keys: "store_keys (ex_basic_store g)" for g
    by (simp add: store_keys_def ex_basic_store_def)
  have faults: "db_fault ex_env MerchantsSelect = None" "db_fault ex_env UsageSelect = None"
    by (simp_all add: ex_env_def)
  have flag: "flag_on ex_env"
    by (simp add: flag_on_def ex_env_def js_trim_def is_ws_def)
  have row: "merchant_row (ex_basic_store g) ''m1''
      = Some \<lparr>m_id = ''m1'', plan_tier = ''basic_50'', trial_ends_at = None\<rparr>" for g
    by (simp add: merchant_row_def ex_basic_store_def)
  have gmv: "month_gmv ex_env (ex_basic_store g) ''m1'' = g" for g
    by (simp add: month_gmv_def ex_basic_store_def ex_env_def monthStr_ex_clock)
  have tier: "tier_of \<lparr>m_id = ''m1'', plan_tier = ''basic_50'', trial_ends_at = None\<rparr> = ''basic_50''"
    "\<not> trial_running ex_env \<lparr>m_id = ''m1'', plan_tier = ''basic_50'', trial_ends_at = None\<rparr>"
    by (simp_all add: tier_of_def trial_running_def)
  show ?thesis
    using entitlement_check_decides[OF keys faults, of "''m1''" 999999]
      entitlement_check_decides[OF keys faults, of "''m1''" 1000000]
    by (simp add: flag row gmv tier)
qed

subsection \<open>The conversion from USD\<close>












subsection \<open>The webhook listener\<close>

lemma ex_fields: "extractFields ex_rt (ex_transfer (JNum (Fin a)))
   = \<lparr>f_to = ''0xabc1'', f_txHash = ''0xh1'', f_amount = Fin a, f_currency = ''ETH'',
      f_network = ''ethereum'', f_confirmations = Fin 0\<rparr>"
  by (simp add: extractFields_def ex_transfer_def mk_event_def nullish_def js_toString_def
      js_Number_def normalizeAmount_def toLowerCase_def toLowerCase_char_def toUpperCase_def
      toUpperCase_char_def Let_def)

lemma ex_match: "pending_match (ex_eth_store Pending) (extractFields ex_rt (ex_transfer (JNum (Fin a))))
   = [ex_eth_invoice Pending]"
  by (simp add: ex_fields pending_match_def ex_eth_store_def ex_eth_invoice_def order_desc_def)

text \<open>
  C10.  An event whose extracted recipient address is empty, whose extracted currency is
  empty, or whose normalised amount is 0 is dropped at the gate: whatever the store and the
  environment, the select step returns nothing and \<open>processEvent\<close> leaves the store as it
  is.  Normalisation maps a missing value, \<open>null\<close> and a string that is not a number to 0, so
  an event whose value is one of these is dropped too.
\<close>

theorem empty_event_ignored:
  "((f_to (extractFields rt ev) = [] \<or> f_currency (extractFields rt ev) = []
       \<or> f_amount (extractFields rt ev) = Fin 0)
      \<longrightarrow> (\<forall>e s. pe_select rt e s ev = None \<and> processEvent rt e s ev = s))
   \<and> (\<forall>d. normalizeAmount rt JUndef d = Fin 0 \<and> normalizeAmount rt JNull d = Fin 0
          \<and> (\<forall>t. \<not> integer_like t \<and> str_to_num rt t = NaN
                \<longrightarrow> normalizeAmount rt (JStr t) d = Fin 0))
   \<and> (\<forall>v. coalesce [ev ''value'', ev ''amount''] (ev ''tokenValue'') = v
          \<and> (v = JUndef \<or> v = JNull \<or> (\<exists>t. v = JStr t \<and> \<not> integer_like t \<and> str_to_num rt t = NaN))
        \<longrightarrow> (\<forall>e s. pe_select rt e s ev = None \<and> processEvent rt e s ev = s))"
proof -
  have gate: "pe_select rt e s ev = None \<and> processEvent rt e s ev = s"
    if "f_to (extractFields rt ev) = [] \<or> f_currency (extractFields rt ev) = []
       \<or> f_amount (extractFields rt ev) = Fin 0" for e s
    using that by (auto simp: pe_select_def processEvent_def falsy_num_def Let_def)
  have norm: "normalizeAmount rt JUndef d = Fin 0" "normalizeAmount rt JNull d = Fin 0"
    "\<not> integer_like t \<Longrightarrow> str_to_num rt t = NaN \<Longrightarrow> normalizeAmount rt (JStr t) d = Fin 0" for d t
    by (simp_all add: normalizeAmount_def)
  have amt: "f_amount (extractFields rt ev)
      = normalizeAmount rt (coalesce [ev ''value'', ev ''amount''] (ev ''tokenValue''))
          (Some (js_Number rt (coalesce [ev ''decimals'', ev ''tokenDecimals''] (JNum (Fin 18)))))"
    by (simp add: extractFields_def Let_def)
  show ?thesis
    using gate norm by (auto simp: amt simp del: coalesce.simps)
qed

theorem empty_event_ignored_witness:
  "processEvent ex_rt ex_env (ex_eth_store Pending) (ex_transfer (JStr ''abc'')) = ex_eth_store Pending
   \<and> processEvent ex_rt ex_env (ex_eth_store Pending) (ex_transfer JNull) = ex_eth_store Pending
   \<and> processEvent ex_rt ex_env (ex_eth_store Pending) (ex_transfer (JNum (Fin 0))) = ex_eth_store Pending"
proof -
  have v: "coalesce [ex_transfer x ''value'', ex_transfer x ''amount''] (ex_transfer x ''tokenValue'')
      = (if nullish x then JUndef else x)" for x
    by (simp add: ex_transfer_def mk_event_def nullish_def)
  have s: "\<not> integer_like ''abc''" "str_to_num ex_rt ''abc'' = NaN"
    by (simp_all add: integer_like_def is_digit_def ex_rt_def)
  have z: "f_amount (extractFields ex_rt (ex_transfer (JNum (Fin 0)))) = Fin 0"
    by (simp add: ex_fields)
  note t = empty_event_ignored[of ex_rt]
  show ?thesis
    using t[of "ex_transfer (JStr ''abc'')", THEN conjunct2, THEN conjunct2, rule_format,
            of "JStr ''abc''" ex_env "ex_eth_store Pending"]
      t[of "ex_transfer JNull", THEN conjunct2, THEN conjunct2, rule_format,
            of JUndef ex_env "ex_eth_store Pending"]
      t[of "ex_transfer (JNum (Fin 0))", THEN conjunct1, rule_format,
            of ex_env "ex_eth_store Pending"]
    by (simp add: v s z nullish_def del: coalesce.simps)
qed

lemma take1_member: "take 1 xs = [x] \<Longrightarrow> x \<in> set xs"
  by (cases xs) auto

lemma pending_match_row:
  assumes "pending_match s f = [iv]"
  shows "iv \<in> set (invoices s)" "inv_status iv = Pending \<or> inv_status iv = Draft"
    "to_address iv = f_to f" "currency iv = f_currency f" "network iv = Some (f_network f)"
proof -
  have "iv \<in> set (order_desc (filter
       (\<lambda>i. to_address i = f_to f \<and> currency i = f_currency f
            \<and> network i = Some (f_network f)
            \<and> inv_status i \<in> set [Pending, Draft])
       (invoices s)))"
    using assms unfolding pending_match_def by (rule take1_member)
  then show "iv \<in> set (invoices s)" "inv_status iv = Pending \<or> inv_status iv = Draft"
    "to_address iv = f_to f" "currency iv = f_currency f" "network iv = Some (f_network f)"
    by (auto simp: order_desc_def)
qed


lemma pe_select_matched:
  assumes "f = extractFields rt ev" "f_to f \<noteq> []" "f_currency f \<noteq> []" "f_amount f = Fin a" "a \<noteq> 0"
    "db_fault e InvoicesSelect = None" "pending_match s f = [iv]"
  shows "pe_select rt e s ev = (if amount iv * (1 - 0.005) \<le> a then Some (f, iv) else None)"
proof -
  have ar: "(a + amount iv * 0.005 < amount iv) \<longleftrightarrow> \<not> (amount iv * (1 - 0.005) \<le> a)"
    by (simp add: algebra_simps) argo
  show ?thesis
    using assms(2-7) ar unfolding pe_select_def assms(1)[symmetric]
    by (simp add: falsy_num_def maybeSingle_def js_lt_def js_add_def Let_def)
qed


lemma upsert_payment_invoices [simp]: "invoices (upsert_payment p s) = invoices s"
  by (simp add: upsert_payment_def)

lemma update_invoices_payments [simp]: "payments (update_invoices P g s) = payments s"
  by (simp add: update_invoices_def)



subsection \<open>What the three components do to a row\<close>

lemma maybeSingle_Some: "maybeSingle rows = Inr (Some x) \<longleftrightarrow> rows = [x]"
  by (auto simp: maybeSingle_def split: list.splits)

lemma pe_select_Some:
  assumes "pe_select rt e s ev = Some (f, iv)"
  shows "f = extractFields rt ev" "pending_match s f = [iv]"
  using assms
  by (auto simp: pe_select_def Let_def maybeSingle_Some
      split: if_splits option.splits sum.splits)

lemma sr_select_Inr:
  assumes "sr_select e s t = Inr iv"
  shows "filter (\<lambda>i. public_token i = t) (invoices s) = [iv]" "inv_status iv = Pending"
  using assms
  by (auto simp: sr_select_def maybeSingle_Some split: if_splits option.splits sum.splits)

lemma list_all2_update:
  assumes "\<And>x. x \<in> set xs \<Longrightarrow> R x (h x)"
  shows "list_all2 R xs (map h xs)"
  using assms by (simp add: list_all2_map2 list_all2_same)


lemma receipt_rows:
  "list_all2 (\<lambda>old new. new = old \<or> (inv_status old = Pending \<and> inv_status new = Paid
                                      \<and> inv_id new = inv_id old))
     (invoices s) (invoices (snd (solana_receipt e s rq)))"
proof -
  let ?R = "\<lambda>old new. new = old \<or> (inv_status old = Pending \<and> inv_status new = Paid
                                      \<and> inv_id new = inv_id old)"
  have upd: "list_all2 ?R (invoices s) (invoices (snd (sr_update e t sg s)))"
    if "sr_select e s t = Inr iv" for t sg iv
  proof (cases "db_fault e InvoicesUpdate")
    case None
    note sel = sr_select_Inr[OF that]
    have "?R x (if public_token x = t then x\<lparr>inv_status := Paid, detected_tx_hash := Some sg\<rparr> else x)"
      if "x \<in> set (invoices s)" for x
    proof (cases "public_token x = t")
      case True
      with that have "x \<in> set (filter (\<lambda>i. public_token i = t) (invoices s))" by simp
      then have "x = iv" by (simp add: sel(1))
      then show ?thesis using sel(2) by simp
    next
      case False
      then show ?thesis by simp
    qed
    then show ?thesis
      by (simp add: sr_update_def None update_invoices_def list_all2_update)
  next
    case (Some uerr)
    then show ?thesis by (simp add: sr_update_def list_all2_same)
  qed
  show ?thesis
    using upd
    by (auto simp: solana_receipt_def Let_def list_all2_same split: option.splits sum.splits)
qed

subsection \<open>The client-submitted receipt\<close>

text \<open>
  C9.  The receipt endpoint writes only when the invoice it finds is pending.  For a
  well-formed request whose invoice has any other status it answers 200 and leaves the store
  as it is; whatever the request, a row that is not pending comes out of the handler
  unchanged, so a draft invoice is never paid by a client receipt.  The webhook listener,
  on the other hand, does pay a draft invoice: the example event turns the draft invoice of
  the example store into a paid one.
\<close>

theorem receipt_only_from_pending:
  "(\<forall>e s t_raw sig_raw iv.
       isUuid (js_trim t_raw) \<and> isBase58 (js_trim sig_raw) \<and> db_fault e InvoicesSelect = None
       \<and> filter (\<lambda>i. public_token i = js_trim t_raw) (invoices s) = [iv]
       \<and> inv_status iv \<noteq> Pending
     \<longrightarrow> solana_receipt e s \<lparr>rq_method = ''POST'', rq_body = Some (t_raw, sig_raw)\<rparr>
           = (\<lparr>status_code = 200, payload = JsonOk\<rparr>, s))
   \<and> (\<forall>e s rq. list_all2 (\<lambda>old new. inv_status old \<noteq> Pending \<longrightarrow> new = old)
          (invoices s) (invoices (snd (solana_receipt e s rq))))
   \<and> map inv_status (invoices (processEvent ex_rt ex_env (ex_eth_store Draft)
          (ex_transfer (JNum (Fin 1))))) = [Paid]"
proof -
  have one: "solana_receipt e s \<lparr>rq_method = ''POST'', rq_body = Some (t_raw, sig_raw)\<rparr>
           = (\<lparr>status_code = 200, payload = JsonOk\<rparr>, s)"
    if "isUuid (js_trim t_raw)" "isBase58 (js_trim sig_raw)" "db_fault e InvoicesSelect = None"
       "filter (\<lambda>i. public_token i = js_trim t_raw) (invoices s) = [iv]" "inv_status iv \<noteq> Pending"
    for e s t_raw sig_raw iv
    using that by (simp add: solana_receipt_def sr_select_def maybeSingle_def Let_def)
  have two: "list_all2 (\<lambda>old new. inv_status old \<noteq> Pending \<longrightarrow> new = old)
          (invoices s) (invoices (snd (solana_receipt e s rq)))" for e s rq
    using receipt_rows[of s e rq] by (rule list_all2_mono) auto
  have m: "pending_match (ex_eth_store Draft) (extractFields ex_rt (ex_transfer (JNum (Fin 1))))
      = [ex_eth_invoice Draft]"
    by (simp add: ex_fields pending_match_def ex_eth_store_def ex_eth_invoice_def order_desc_def)
  have "pe_select ex_rt ex_env (ex_eth_store Draft) (ex_transfer (JNum (Fin 1)))
      = Some (extractFields ex_rt (ex_transfer (JNum (Fin 1))), ex_eth_invoice Draft)"
    by (subst pe_select_matched[OF refl _ _ _ _ _ m, where a = 1])
       (simp_all add: ex_fields ex_env_def ex_eth_invoice_def)
  then have three: "map inv_status (invoices (processEvent ex_rt ex_env (ex_eth_store Draft)
          (ex_transfer (JNum (Fin 1))))) = [Paid]"
    by (simp add: processEvent_def pe_update_def pe_upsert_def update_invoices_def
        ex_eth_store_def)
  show ?thesis using one two three by blast
qed

theorem receipt_only_from_pending_witness:
  "solana_receipt ex_env (ex_eth_store Draft) ex_receipt_request
     = (\<lparr>status_code = 200, payload = JsonOk\<rparr>, ex_eth_store Draft)"
proof -
  have t: "js_trim ''aaaaaaaa-bbbb-4ccc-8ddd-eeeeeeeeeeee'' = ''aaaaaaaa-bbbb-4ccc-8ddd-eeeeeeeeeeee''"
    "js_trim ex_signature = ex_signature"
    by (simp_all add: js_trim_def is_ws_def ex_signature_def)
  have u: "isUuid ''aaaaaaaa-bbbb-4ccc-8ddd-eeeeeeeeeeee''"
    by (simp add: isUuid_def is_hex_def)
  have b: "isBase58 ex_signature"
    by (simp add: isBase58_def ex_signature_def)
  have d: "db_fault ex_env InvoicesSelect = None"
    by (simp add: ex_env_def)
  have f: "filter (\<lambda>i. public_token i = ''aaaaaaaa-bbbb-4ccc-8ddd-eeeeeeeeeeee'')
      (invoices (ex_eth_store Draft)) = [ex_eth_invoice Draft]"
    by (simp add: ex_eth_store_def ex_eth_invoice_def)
  have st: "inv_status (ex_eth_invoice Draft) \<noteq> Pending"
    by (simp add: ex_eth_invoice_def)
  show ?thesis
    using receipt_only_from_pending[THEN conjunct1, rule_format,
        of "''aaaaaaaa-bbbb-4ccc-8ddd-eeeeeeeeeeee''" ex_signature ex_env "ex_eth_store Draft"
           "ex_eth_invoice Draft"]
    by (simp add: t u b d f st ex_receipt_request_def)
qed

subsection \<open>The confirmation reconciler\<close>

lemma recordUsage_invoices [simp]: "invoices (recordUsage e iv s) = invoices s"
  by (simp add: recordUsage_def Let_def split: option.splits)

lemma set_confirmations_invoices [simp]: "invoices (set_confirmations iv n s) = invoices s"
  by (simp add: set_confirmations_def)





subsection \<open>The lifecycle of an invoice\<close>








subsection \<open>One invoice in one sweep\<close>

lemma toUpperCase_empty [simp]: "toUpperCase t = [] \<longleftrightarrow> t = []"
  by (simp add: toUpperCase_def)




lemma recordUsage_payments [simp]: "payments (recordUsage e iv s) = payments s"
  by (simp add: recordUsage_def Let_def split: option.splits)

lemma set_confirmations_ledger [simp]: "payments_ledger (set_confirmations iv n s) = payments_ledger s"
  by (simp add: set_confirmations_def)

lemma confirm_invoice_other [simp]:
  "payments (confirm_invoice e iv s) = payments s"
  "payments_ledger (confirm_invoice e iv s) = payments_ledger s"
  by (simp_all add: confirm_invoice_def update_invoices_def)


















lemmas sweep_eval =
  confirmations_sweep_def sweep_batch_def sweep_step_def hash_of_def count_confirmations_def
  confirm_invoice_def update_invoices_def set_confirmations_def recordUsage_def getUsdPrice_def
  toUpperCase_def toUpperCase_char_def SYMBOL_TO_ID_def Math_round_def maybeSingle_def
  rpc_set_def Let_def

lemma parse_examples:
  "parseInt16 ''0x64'' = Some 100" "parseInt16 ''0x62'' = Some 98" "parseInt16 ''0x63'' = Some 99"
  "parseInt16 ''0x66'' = Some 102"
  by (simp_all add: parseInt16_def is_ws_def is_hex_def hex_val_def Let_def)



text \<open>
  C5 at the failing input.  Two paid invoices on \<open>ethereum\<close>; the receipt lookup of the first
  throws.  The sweep ends in a 500 with the store as it was: the second invoice, three
  blocks deep, stays paid.  Had the node only had no receipt for the first, the second
  would have been confirmed.
\<close>

theorem lookup_failure_aborts_batch:
  "confirmations_sweep ex_throwing_env ex_two_paid
     = (\<lparr>status_code = 500, payload = Uncaught\<rparr>, ex_two_paid)
   \<and> map inv_status (invoices (snd (confirmations_sweep ex_missing_env ex_two_paid)))
     = [Paid, Confirmed]"
  by (simp add: sweep_eval ex_two_paid_def ex_paid_invoice_def ex_throwing_env_def
      ex_missing_env_def ex_env_def parse_examples monthStr_ex_clock)

subsection \<open>The public invoice view\<close>

lemma isUuid_nonempty: "isUuid v \<Longrightarrow> v \<noteq> []"
  by (auto simp: isUuid_def)

lemma order_desc_set [simp]: "set (order_desc xs) = set xs"
  by (simp add: order_desc_def)

lemma order_desc_length [simp]: "length (order_desc xs) = length xs"
  by (simp add: order_desc_def)

text \<open>
  C7 (as amended).  For a well-formed token that names one invoice, the public view returns
  the invoice and, as siblings, exactly the invoices of the same merchant, amount and
  reference (both absent, or equal) whose status is pending, paid or confirmed, whatever
  their currency, one entry for each.  The requested invoice is itself among them exactly
  when its own status is one of the three.
\<close>

theorem public_view_siblings:
  assumes "pr_method rq = ''GET'' \<or> pr_method rq = ''POST''" "isUuid (pr_token rq)"
    "db_fault e InvoicesSelect = None"
    "filter (\<lambda>i. public_token i = pr_token rq) (invoices s) = [d]"
  shows "\<exists>sibs. invoice_public e s rq = \<lparr>status_code = 200, payload = JsonInvoice d sibs\<rparr>
           \<and> set sibs = (\<lambda>i. (currency i, public_token i)) ` {i \<in> set (invoices s). sibling_of d i}
           \<and> length sibs = length (filter (sibling_of d) (invoices s))
           \<and> ((currency d, public_token d) \<in> set sibs
                \<longleftrightarrow> inv_status d = Pending \<or> inv_status d = Paid \<or> inv_status d = Confirmed)"
proof -
  let ?sibs = "map (\<lambda>i. (currency i, public_token i)) (order_desc (filter (sibling_of d) (invoices s)))"
  have P: "(\<lambda>i. user_id i = user_id d \<and> amount i = amount d
                 \<and> (inv_status i = Pending \<or> inv_status i = Paid \<or> inv_status i = Confirmed)
                 \<and> reference i = reference d)
      = sibling_of d"
    by (auto simp: sibling_of_def fun_eq_iff)
  have res: "invoice_public e s rq = \<lparr>status_code = 200, payload = JsonInvoice d ?sibs\<rparr>"
    using assms isUuid_nonempty[OF assms(2)]
    by (auto simp: invoice_public_def maybeSingle_def Let_def P)
  have "d \<in> set (filter (\<lambda>i. public_token i = pr_token rq) (invoices s))"
    by (simp add: assms(4))
  then have din: "d \<in> set (invoices s)" and dtok: "public_token d = pr_token rq"
    by simp_all
  have own: "(currency d, public_token d) \<in> set ?sibs
      \<longleftrightarrow> inv_status d = Pending \<or> inv_status d = Paid \<or> inv_status d = Confirmed"
  proof
    assume "(currency d, public_token d) \<in> set ?sibs"
    then obtain i where i: "i \<in> set (invoices s)" "sibling_of d i" "public_token i = public_token d"
      by auto
    then have "i \<in> set (filter (\<lambda>i. public_token i = pr_token rq) (invoices s))"
      by (simp add: dtok)
    then have "i = d" by (simp add: assms(4))
    with i(2) show "inv_status d = Pending \<or> inv_status d = Paid \<or> inv_status d = Confirmed"
      by (auto simp: sibling_of_def)
  next
    assume "inv_status d = Pending \<or> inv_status d = Paid \<or> inv_status d = Confirmed"
    then have "sibling_of d d" by (auto simp: sibling_of_def)
    with din show "(currency d, public_token d) \<in> set ?sibs" by force
  qed
  have "set ?sibs = (\<lambda>i. (currency i, public_token i)) ` {i \<in> set (invoices s). sibling_of d i}"
    by auto
  moreover have "length ?sibs = length (filter (sibling_of d) (invoices s))"
    by simp
  ultimately show ?thesis using res own by blast
qed

lemma ex_tokens:
  "isUuid ''aaaaaaaa-0000-4000-8000-000000000001''" "isUuid ''aaaaaaaa-0000-4000-8000-000000000002''"
  "isUuid ''aaaaaaaa-0000-4000-8000-000000000003''"
  by (simp_all add: isUuid_def is_hex_def)

theorem public_view_siblings_witness:
  "map (\<lambda>t. payload (invoice_public ex_env ex_sibling_store \<lparr>pr_method = ''GET'', pr_token = t\<rparr>))
     [''aaaaaaaa-0000-4000-8000-000000000001'', ''aaaaaaaa-0000-4000-8000-000000000002'',
      ''aaaaaaaa-0000-4000-8000-000000000003'']
   = map (\<lambda>d. JsonInvoice d
        [(''USDT'', ''aaaaaaaa-0000-4000-8000-000000000003''),
         (''USDC'', ''aaaaaaaa-0000-4000-8000-000000000002''),
         (''SOL'', ''aaaaaaaa-0000-4000-8000-000000000001'')])
     [ex_offer ''inv-1'' ''SOL'' ''aaaaaaaa-0000-4000-8000-000000000001'' Pending 1762000000001,
      ex_offer ''inv-2'' ''USDC'' ''aaaaaaaa-0000-4000-8000-000000000002'' Paid 1762000000002,
      ex_offer ''inv-3'' ''USDT'' ''aaaaaaaa-0000-4000-8000-000000000003'' Confirmed 1762000000003]"
proof -
  let ?d = "ex_offer ''inv-1'' ''SOL'' ''aaaaaaaa-0000-4000-8000-000000000001'' Pending 1762000000001"
  let ?rq = "\<lparr>pr_method = ''GET'', pr_token = ''aaaaaaaa-0000-4000-8000-000000000001''\<rparr>"
  have h: "pr_method ?rq = ''GET'' \<or> pr_method ?rq = ''POST''" "isUuid (pr_token ?rq)"
    "db_fault ex_env InvoicesSelect = None"
    "filter (\<lambda>i. public_token i = pr_token ?rq) (invoices ex_sibling_store) = [?d]"
    by (simp_all add: ex_tokens ex_env_def ex_sibling_store_def ex_offer_def)
  from public_view_siblings[OF h] obtain sibs where
    "invoice_public ex_env ex_sibling_store ?rq = \<lparr>status_code = 200, payload = JsonInvoice ?d sibs\<rparr>"
    by blast
  then have "status_code (invoice_public ex_env ex_sibling_store ?rq) = 200" by simp
  moreover have "payload (invoice_public ex_env ex_sibling_store \<lparr>pr_method = ''GET'', pr_token = t\<rparr>)
     = JsonInvoice d
        [(''USDT'', ''aaaaaaaa-0000-4000-8000-000000000003''),
         (''USDC'', ''aaaaaaaa-0000-4000-8000-000000000002''),
         (''SOL'', ''aaaaaaaa-0000-4000-8000-000000000001'')]"
    if "(t, d) \<in> {(''aaaaaaaa-0000-4000-8000-000000000001'', ?d),
       (''aaaaaaaa-0000-4000-8000-000000000002'',
        ex_offer ''inv-2'' ''USDC'' ''aaaaaaaa-0000-4000-8000-000000000002'' Paid 1762000000002),
       (''aaaaaaaa-0000-4000-8000-000000000003'',
        ex_offer ''inv-3'' ''USDT'' ''aaaaaaaa-0000-4000-8000-000000000003'' Confirmed 1762000000003)}"
    for t d
    using that
    by (auto simp: invoice_public_def ex_tokens ex_env_def ex_sibling_store_def ex_offer_def
        maybeSingle_def order_desc_def Let_def)
  ultimately show ?thesis by simp
qed

text \<open>
  C7 (as stated) fails: of two pending USDC invoices of one merchant with the same amount and
  reference, the view of the first lists both, though neither differs from it in currency.
\<close>

theorem same_currency_sibling_counterexample:
  "payload (invoice_public ex_env ex_same_currency_store
      \<lparr>pr_method = ''GET'', pr_token = ''aaaaaaaa-0000-4000-8000-000000000001''\<rparr>)
     = JsonInvoice
         (ex_offer ''inv-1'' ''USDC'' ''aaaaaaaa-0000-4000-8000-000000000001'' Pending 1762000000001)
         [(''USDC'', ''aaaaaaaa-0000-4000-8000-000000000002''),
          (''USDC'', ''aaaaaaaa-0000-4000-8000-000000000001'')]
   \<and> claimed_siblings ex_same_currency_store
         (ex_offer ''inv-1'' ''USDC'' ''aaaaaaaa-0000-4000-8000-000000000001'' Pending 1762000000001)
       = []"
  by (simp add: invoice_public_def ex_tokens ex_env_def ex_same_currency_store_def ex_offer_def
      maybeSingle_def order_desc_def Let_def claimed_siblings_def sibling_of_def)

subsection \<open>Two deliveries at once\<close>

lemma ex_fields2: "extractFields ex_rt ex_transfer2
   = \<lparr>f_to = ''0xabc1'', f_txHash = ''0xh2'', f_amount = Fin 1, f_currency = ''ETH'',
      f_network = ''ethereum'', f_confirmations = Fin 0\<rparr>"
  by (simp add: extractFields_def ex_transfer2_def mk_event_def nullish_def js_toString_def
      js_Number_def normalizeAmount_def toLowerCase_def toLowerCase_char_def toUpperCase_def
      toUpperCase_char_def Let_def)

lemma ex_select1: "pe_select ex_rt ex_env (ex_eth_store Pending) (ex_transfer (JNum (Fin 1)))
      = Some (extractFields ex_rt (ex_transfer (JNum (Fin 1))), ex_eth_invoice Pending)"
  by (subst pe_select_matched[OF refl _ _ _ _ _ ex_match, where a = 1])
     (simp_all add: ex_fields ex_env_def ex_eth_invoice_def)

lemma ex_select2: "pe_select ex_rt ex_later_env (ex_eth_store Pending) ex_transfer2
      = Some (extractFields ex_rt ex_transfer2, ex_eth_invoice Pending)"
proof -
  have m: "pending_match (ex_eth_store Pending) (extractFields ex_rt ex_transfer2)
      = [ex_eth_invoice Pending]"
    by (simp add: ex_fields2 pending_match_def ex_eth_store_def ex_eth_invoice_def order_desc_def)
  show ?thesis
    by (subst pe_select_matched[OF refl _ _ _ _ _ m, where a = 1])
       (simp_all add: ex_fields2 ex_later_env_def ex_env_def ex_eth_invoice_def)
qed

text \<open>
  C8 (as stated) fails: two deliveries read the same pending invoice before either writes.
  The second write is not a no-op: it replaces the detected transaction hash and the
  detection time that the first wrote, and a second Payment row is added.
\<close>

theorem racing_deliveries_counterexample:
  "map detected_tx_hash (invoices (fst (both_read_then_write ex_rt ex_env
       (ex_transfer (JNum (Fin 1))) ex_later_env ex_transfer2 (ex_eth_store Pending))))
     = [Some ''0xh1'']
   \<and> map detected_tx_hash (invoices (snd (both_read_then_write ex_rt ex_env
       (ex_transfer (JNum (Fin 1))) ex_later_env ex_transfer2 (ex_eth_store Pending))))
     = [Some ''0xh2'']
   \<and> map detected_at (invoices (snd (both_read_then_write ex_rt ex_env
       (ex_transfer (JNum (Fin 1))) ex_later_env ex_transfer2 (ex_eth_store Pending))))
     = [Some 1762128000040]
   \<and> map tx_hash (payments (snd (both_read_then_write ex_rt ex_env
       (ex_transfer (JNum (Fin 1))) ex_later_env ex_transfer2 (ex_eth_store Pending))))
     = [''0xh1'', ''0xh2'']"
proof -
  let ?f1 = "extractFields ex_rt (ex_transfer (JNum (Fin 1)))"
  let ?f2 = "extractFields ex_rt ex_transfer2"
  let ?iv = "ex_eth_invoice Pending"
  let ?s1 = "pe_update ex_env ?f1 ?iv (pe_upsert ex_env ?f1 ?iv (ex_eth_store Pending))"
  have r: "both_read_then_write ex_rt ex_env (ex_transfer (JNum (Fin 1))) ex_later_env ex_transfer2
       (ex_eth_store Pending) = (?s1, pe_update ex_later_env ?f2 ?iv (pe_upsert ex_later_env ?f2 ?iv ?s1))"
    by (simp add: both_read_then_write_def ex_select1 ex_select2 Let_def)
  have s1: "?s1 = \<lparr>invoices = [(ex_eth_invoice Pending)\<lparr>inv_status := Paid,
                 detected_tx_hash := Some ''0xh1'', detected_at := Some 1762128000000\<rparr>],
      payments = [\<lparr>pay_invoice_id = ''inv-1'', chain = ''ethereum'', tx_hash = ''0xh1'',
                   pay_amount = Fin 1, confirmations = Some 0\<rparr>],
      merchants = [], merchant_usage_monthly = [], payments_ledger = [], wallets = []\<rparr>"
    by (simp add: ex_fields pe_update_def pe_upsert_def upsert_payment_def update_invoices_def
        ex_eth_store_def ex_eth_invoice_def ex_env_def ex_clock_def)
  show ?thesis
    unfolding r fst_conv snd_conv
    by (simp add: s1)
       (simp add: ex_fields2 pe_update_def pe_upsert_def upsert_payment_def update_invoices_def
        ex_eth_invoice_def ex_later_env_def ex_env_def ex_clock_def)
qed

text \<open>
  C8 (as amended).  The update of neither ingestion producer tests the status: the webhook
  listener rewrites every row with the invoice id, the client receipt every row with the
  public token, to paid with the hash of the delivery.  The status is tested in the read
  that comes before: the webhook listener selects only an invoice that is pending or draft,
  the client receipt goes on only for a pending one.  So a delivery that reads after the
  winner has written does not select the invoice the winner paid.
\<close>

theorem guard_in_read_only:
  "(\<forall>e f iv s. list_all (\<lambda>i. inv_status i = Paid
            \<and> detected_tx_hash i = (if f_txHash f \<noteq> [] then Some (f_txHash f) else None)
            \<and> detected_at i = Some (now_ms (clk e)))
        (filter (\<lambda>i. inv_id i = inv_id iv) (invoices (pe_update e f iv s))))
   \<and> (\<forall>e t sg s. db_fault e InvoicesUpdate = None \<longrightarrow>
         list_all (\<lambda>i. inv_status i = Paid \<and> detected_tx_hash i = Some sg)
           (filter (\<lambda>i. public_token i = t) (invoices (snd (sr_update e t sg s)))))
   \<and> (\<forall>rt e s ev f iv. pe_select rt e s ev = Some (f, iv) \<longrightarrow>
         iv \<in> set (invoices s) \<and> (inv_status iv = Pending \<or> inv_status iv = Draft))
   \<and> (\<forall>e s t iv. sr_select e s t = Inr iv \<longrightarrow> iv \<in> set (invoices s) \<and> inv_status iv = Pending)
   \<and> (\<forall>rt e1 e2 ev1 ev2 s f1 iv f2 iv2.
         distinct (map inv_id (invoices s)) \<and> pe_select rt e1 s ev1 = Some (f1, iv)
         \<and> pe_select rt e2 (processEvent rt e1 s ev1) ev2 = Some (f2, iv2)
       \<longrightarrow> inv_id iv2 \<noteq> inv_id iv)"
proof -
  have a: "list_all (\<lambda>i. inv_status i = Paid
            \<and> detected_tx_hash i = (if f_txHash f \<noteq> [] then Some (f_txHash f) else None)
            \<and> detected_at i = Some (now_ms (clk e)))
        (filter (\<lambda>i. inv_id i = inv_id iv) (invoices (pe_update e f iv s)))" for e f iv s
  proof -
    have "list_all (\<lambda>i. inv_status i = Paid \<and> detected_tx_hash i = h \<and> detected_at i = Some n)
        (filter (\<lambda>i. inv_id i = k)
           (map (\<lambda>i. if inv_id i = k
                      then i\<lparr>inv_status := Paid, detected_tx_hash := h, detected_at := Some n\<rparr>
                      else i) xs))" for h n k and xs :: "invoice list"
      by (induction xs) simp_all
    then show ?thesis
      by (simp add: pe_update_def update_invoices_def)
  qed
  have b: "list_all (\<lambda>i. inv_status i = Paid \<and> detected_tx_hash i = Some sg)
           (filter (\<lambda>i. public_token i = t) (invoices (snd (sr_update e t sg s))))"
    if "db_fault e InvoicesUpdate = None" for e t sg s
  proof -
    have "list_all (\<lambda>i. inv_status i = Paid \<and> detected_tx_hash i = Some sg)
        (filter (\<lambda>i. public_token i = t)
           (map (\<lambda>i. if public_token i = t
                      then i\<lparr>inv_status := Paid, detected_tx_hash := Some sg\<rparr> else i) xs))"
      for xs :: "invoice list"
      by (induction xs) simp_all
    then show ?thesis
      using that by (simp add: sr_update_def update_invoices_def)
  qed
  have c: "iv \<in> set (invoices s) \<and> (inv_status iv = Pending \<or> inv_status iv = Draft)"
    if "pe_select rt e s ev = Some (f, iv)" for rt e s ev f iv
    using pending_match_row(1,2)[OF pe_select_Some(2)[OF that]] by simp
  have d: "iv \<in> set (invoices s) \<and> inv_status iv = Pending" if "sr_select e s t = Inr iv" for e s t iv
  proof -
    note sel = sr_select_Inr[OF that]
    have "iv \<in> set (filter (\<lambda>i. public_token i = t) (invoices s))" by (simp add: sel(1))
    then show ?thesis using sel(2) by simp
  qed
  have e: "inv_id iv2 \<noteq> inv_id iv"
    if "distinct (map inv_id (invoices s))" "pe_select rt e1 s ev1 = Some (f1, iv)"
      "pe_select rt e2 (processEvent rt e1 s ev1) ev2 = Some (f2, iv2)"
    for rt e1 e2 ev1 ev2 s f1 iv f2 iv2
  proof
    assume same: "inv_id iv2 = inv_id iv"
    let ?s1 = "processEvent rt e1 s ev1"
    have s1: "?s1 = pe_update e1 f1 iv (pe_upsert e1 f1 iv s)"
      by (simp add: processEvent_def that(2))
    have "iv2 \<in> set (filter (\<lambda>i. inv_id i = inv_id iv) (invoices ?s1))"
      using c[OF that(3)] same by simp
    then have "inv_status iv2 = Paid"
      using a[where e = e1 and f = f1 and iv = iv and s = "pe_upsert e1 f1 iv s"]
      unfolding s1 list_all_iff by blast
    with c[OF that(3)] show False by auto
  qed
  show ?thesis
  proof (intro conjI allI impI)
    fix e :: env and f :: fields and iv :: invoice and s :: store
    show "list_all (\<lambda>i. inv_status i = Paid
            \<and> detected_tx_hash i = (if f_txHash f \<noteq> [] then Some (f_txHash f) else None)
            \<and> detected_at i = Some (now_ms (clk e)))
        (filter (\<lambda>i. inv_id i = inv_id iv) (invoices (pe_update e f iv s)))"
      by (rule a)
  next
    fix e :: env and t sg :: string and s :: store
    assume "db_fault e InvoicesUpdate = None"
    then show "list_all (\<lambda>i. inv_status i = Paid \<and> detected_tx_hash i = Some sg)
           (filter (\<lambda>i. public_token i = t) (invoices (snd (sr_update e t sg s))))"
      by (rule b)
  next
    fix rt :: js_runtime and e :: env and s :: store and ev :: event and f :: fields
      and iv :: invoice
    assume "pe_select rt e s ev = Some (f, iv)"
    from c[OF this] show "iv \<in> set (invoices s)" "inv_status iv = Pending \<or> inv_status iv = Draft"
      by simp_all
  next
    fix e :: env and s :: store and t :: string and iv :: invoice
    assume "sr_select e s t = Inr iv"
    from d[OF this] show "iv \<in> set (invoices s)" "inv_status iv = Pending"
      by simp_all
  next
    fix rt :: js_runtime and e1 e2 :: env and ev1 ev2 :: event and s :: store
      and f1 f2 :: fields and iv iv2 :: invoice
    assume "distinct (map inv_id (invoices s)) \<and> pe_select rt e1 s ev1 = Some (f1, iv)
         \<and> pe_select rt e2 (processEvent rt e1 s ev1) ev2 = Some (f2, iv2)"
    then show "inv_id iv2 \<noteq> inv_id iv"
      using e by blast
  qed
qed

theorem guard_in_read_only_witness:
  "list_all (\<lambda>i. inv_status i = Paid \<and> detected_tx_hash i = Some ex_signature)
     (filter (\<lambda>i. public_token i = ''aaaaaaaa-bbbb-4ccc-8ddd-eeeeeeeeeeee'')
        (invoices (snd (sr_update ex_env ''aaaaaaaa-bbbb-4ccc-8ddd-eeeeeeeeeeee'' ex_signature
           (ex_eth_store Confirmed)))))
   \<and> ex_eth_invoice Pending \<in> set (invoices (ex_eth_store Pending))
   \<and> (inv_status (ex_eth_invoice Pending) = Pending \<or> inv_status (ex_eth_invoice Pending) = Draft)"
proof -
  have d: "db_fault ex_env InvoicesUpdate = None"
    by (simp add: ex_env_def)
  from guard_in_read_only[THEN conjunct2, THEN conjunct1, rule_format, OF d]
    guard_in_read_only[THEN conjunct2, THEN conjunct2, THEN conjunct1, rule_format, OF ex_select1]
  show ?thesis by blast
qed

end
